theory Spec2Isabelle
  imports Main "HOL-Library.Multiset"
begin

section \<open>Data model of music2json.ts\<close>

type_synonym path = string

text \<open>The four result types of the source: Track, Album, Artist and ProcessingError.\<close>

record Track =
  title :: string

record Album =
  albumTitle :: string
  genres :: "string list"
  tracks :: "Track list"

record Artist =
  artistName :: string
  albums :: "Album list"

record ProcessingError =
  pe_file :: string
  error :: string

text \<open>
  A value that is thrown, or with which a promise rejects. The source only ever looks at it
  through \<^verbatim>\<open>error instanceof Error ? error.message : String(error)\<close>: \<open>JsError\<close> carries the
  message of an Error object, \<open>JsValue\<close> carries \<^verbatim>\<open>String(error)\<close> of anything else.
\<close>

datatype thrown = JsError string | JsValue string

fun errorMessage :: "thrown \<Rightarrow> string" where
  "errorMessage (JsError message) = message"
| "errorMessage (JsValue s) = s"

text \<open>
  A directory entry as \<^verbatim>\<open>fs.readdir(p, { withFileTypes: true })\<close> returns it: a name and a
  type. An entry can be neither a regular file nor a directory (a symbolic link, a socket).
\<close>

datatype entry_kind = RegularFile | Directory | OtherEntry

record Dirent =
  name :: string
  kind :: entry_kind

definition isFile :: "Dirent \<Rightarrow> bool" where
  "isFile d = (kind d = RegularFile)"

definition isDirectory :: "Dirent \<Rightarrow> bool" where
  "isDirectory d = (kind d = Directory)"

text \<open>
  The \<^verbatim>\<open>common\<close> part of what \<^verbatim>\<open>parseFile\<close> resolves to, with the two fields the source reads:
  \<^verbatim>\<open>common.title\<close> and \<^verbatim>\<open>common.genre\<close>, each of which may be undefined.
\<close>

record common_tags =
  tag_title :: "string option"
  tag_genre :: "string list option"

text \<open>
  The world outside the program: the file system calls of \<^verbatim>\<open>node:fs\<close>, the path functions of
  \<^verbatim>\<open>node:path\<close> and the metadata decoder \<^verbatim>\<open>parseFile\<close> of the music-metadata package. None of
  them is code of this repository, so each is a parameter. A promise that rejects is \<open>Inl\<close> (or
  \<open>Some\<close> for a call whose result is not used). \<open>stat\<close> resolves to the \<^verbatim>\<open>isDirectory()\<close> of the
  stats object. \<open>latency\<close> is the time a probe of the file takes: the probes of one batch
  run concurrently and their continuations run in the order in which they complete.
\<close>

record node_env =
  readdir :: "path \<Rightarrow> thrown + Dirent list"
  parseFile :: "path \<Rightarrow> thrown + common_tags"
  latency :: "path \<Rightarrow> nat"
  join :: "path \<Rightarrow> string \<Rightarrow> path"
  extname :: "path \<Rightarrow> string"
  dirname :: "path \<Rightarrow> path"
  access :: "path \<Rightarrow> thrown option"
  stat :: "path \<Rightarrow> thrown + bool"
  mkdir :: "path \<Rightarrow> thrown option"
  writeFile :: "path \<Rightarrow> thrown option"

section \<open>processAlbum\<close>

definition SUPPORTED_FILE_TYPES :: "string list" where
  "SUPPORTED_FILE_TYPES = [''.m4a'', ''.aac'', ''.mp4'', ''.mp3'', ''.flac'', ''.ogg'']"

text \<open>
  \<^verbatim>\<open>toLowerCase\<close> on the letters A to Z. No other character has a lower case among the
  characters of the supported extensions, so the membership test of the source is the same.
\<close>

definition toLowerChar :: "char \<Rightarrow> char" where
  "toLowerChar c =
     (let n = (of_char c :: nat) in if 65 \<le> n \<and> n \<le> 90 then char_of (n + 32) else c)"

definition toLowerCase :: "string \<Rightarrow> string" where
  "toLowerCase s = map toLowerChar s"

text \<open>The predicate of \<^verbatim>\<open>trackFiles.filter\<close>.\<close>

definition isMusicFile :: "node_env \<Rightarrow> Dirent \<Rightarrow> bool" where
  "isMusicFile env f =
     (isFile f \<and> toLowerCase (extname env (name f)) \<in> set SUPPORTED_FILE_TYPES)"

text \<open>\<^verbatim>\<open>Set.prototype.add\<close> on a set of strings kept in insertion order.\<close>

definition set_add :: "string list \<Rightarrow> string \<Rightarrow> string list" where
  "set_add s x = (if x \<in> set s then s else s @ [x])"

text \<open>\<^verbatim>\<open>a || b\<close> on an optional string: undefined and the empty string are both falsy.\<close>

definition orElse :: "string option \<Rightarrow> string \<Rightarrow> string" where
  "orElse a b = (case a of None \<Rightarrow> b | Some s \<Rightarrow> if s = [] then b else s)"

text \<open>
  The mutable state of one call of processAlbum: \<^verbatim>\<open>album.tracks\<close>, \<^verbatim>\<open>allGenres\<close> and
  \<^verbatim>\<open>errors\<close>.
\<close>

record album_state =
  st_tracks :: "Track list"
  allGenres :: "string list"
  st_errors :: "ProcessingError list"

text \<open>
  The async callback of \<^verbatim>\<open>batch.map\<close>, from the moment \<^verbatim>\<open>parseFile\<close> has settled: it returns
  the track or null, and changes \<^verbatim>\<open>allGenres\<close> or \<^verbatim>\<open>errors\<close>.
\<close>

definition batchCallback ::
  "node_env \<Rightarrow> path \<Rightarrow> Dirent \<Rightarrow> album_state \<Rightarrow> Track option \<times> album_state" where
  "batchCallback env albumPath trackFile st =
     (let filePath = join env albumPath (name trackFile) in
      case parseFile env filePath of
        Inr common \<Rightarrow>
          (Some \<lparr>title = orElse (tag_title common) (name trackFile)\<rparr>,
           case tag_genre common of
             None \<Rightarrow> st
           | Some gs \<Rightarrow> st\<lparr>allGenres := foldl set_add (allGenres st) gs\<rparr>)
      | Inl err \<Rightarrow>
          (None, st\<lparr>st_errors := st_errors st @ [\<lparr>pe_file = filePath, error = errorMessage err\<rparr>]\<rparr>))"

text \<open>
  The order in which the probes of a batch complete: the files of the batch with their
  index of submission, by their latency (the earlier submitted first, when equal).
\<close>

definition completionOrder :: "node_env \<Rightarrow> path \<Rightarrow> Dirent list \<Rightarrow> (nat \<times> Dirent) list" where
  "completionOrder env albumPath batch =
     sort_key (\<lambda>p. latency env (join env albumPath (name (snd p)))) (enumerate 0 batch)"

text \<open>
  One continuation runs: the callback of the file submitted at index \<open>j\<close> changes the state,
  and its result settles the promise at index \<open>j\<close>.
\<close>

definition settle ::
  "node_env \<Rightarrow> path \<Rightarrow> Track option list \<times> album_state \<Rightarrow> nat \<times> Dirent \<Rightarrow>
   Track option list \<times> album_state" where
  "settle env albumPath acc p =
     (let r = batchCallback env albumPath (snd p) (snd acc) in ((fst acc)[fst p := fst r], snd r))"

text \<open>
  One round of the loop body: \<^verbatim>\<open>Promise.all\<close> resolves to the results by index of
  submission once every callback has run, the nulls are filtered out and the tracks are
  pushed.
\<close>

definition runBatch :: "node_env \<Rightarrow> path \<Rightarrow> Dirent list \<Rightarrow> album_state \<Rightarrow> album_state" where
  "runBatch env albumPath batch st =
     (let settled = foldl (settle env albumPath) (replicate (length batch) None, st)
                      (completionOrder env albumPath batch);
          tracks = List.map_filter id (fst settled)
      in (snd settled)\<lparr>st_tracks := st_tracks (snd settled) @ tracks\<rparr>)"

definition batchSize :: nat where
  "batchSize = 10"

text \<open>\<^verbatim>\<open>xs.slice(a, b)\<close> for \<open>0 \<le> a\<close> and \<open>0 \<le> b\<close>.\<close>

definition slice :: "'a list \<Rightarrow> nat \<Rightarrow> nat \<Rightarrow> 'a list" where
  "slice xs a b = take (b - a) (drop a xs)"

text \<open>The loop \<^verbatim>\<open>for (let i = 0; i < musicFiles.length; i += batchSize)\<close>, from index \<open>i\<close> on.\<close>

function batchLoop ::
  "node_env \<Rightarrow> path \<Rightarrow> Dirent list \<Rightarrow> nat \<Rightarrow> album_state \<Rightarrow> album_state" where
  "batchLoop env albumPath musicFiles i st =
     (if i < length musicFiles then
        batchLoop env albumPath musicFiles (i + batchSize)
          (runBatch env albumPath
             (slice musicFiles i (min (i + batchSize) (length musicFiles))) st)
      else st)"
  by pat_completeness auto
termination
  by (relation "measure (\<lambda>(env, albumPath, musicFiles, i, st). length musicFiles - i)")
     (auto simp: batchSize_def)

declare batchLoop.simps [simp del]

record album_result =
  album :: "Album option"
  errors :: "ProcessingError list"

text \<open>
  processAlbum. Inside its \<^verbatim>\<open>try\<close> only \<^verbatim>\<open>fs.readdir\<close> can throw (the probes catch their own
  failures), and it does so before anything is pushed on \<^verbatim>\<open>errors\<close>.
\<close>

definition processAlbum :: "node_env \<Rightarrow> path \<Rightarrow> string \<Rightarrow> album_result" where
  "processAlbum env albumPath albumName =
     (case readdir env albumPath of
        Inl err \<Rightarrow>
          \<lparr>album = None, errors = [] @ [\<lparr>pe_file = albumPath, error = errorMessage err\<rparr>]\<rparr>
      | Inr trackFiles \<Rightarrow>
          (let musicFiles = filter (isMusicFile env) trackFiles in
           if length musicFiles = 0 then \<lparr>album = None, errors = []\<rparr>
           else
             (let st = batchLoop env albumPath musicFiles 0
                         \<lparr>st_tracks = [], allGenres = [], st_errors = []\<rparr>
              in \<lparr>album =
                    (if length (st_tracks st) > 0
                     then Some \<lparr>albumTitle = albumName, genres = allGenres st,
                                tracks = st_tracks st\<rparr>
                     else None),
                  errors = st_errors st\<rparr>)))"

section \<open>scanDirectory\<close>

record scan_result =
  artists :: "Artist list"
  scan_errors :: "ProcessingError list"

text \<open>
  The inner loop \<^verbatim>\<open>for (const albumDir of albumDirs)\<close>, on \<^verbatim>\<open>artist.albums\<close> and \<^verbatim>\<open>errors\<close>.
\<close>

fun albumLoop ::
  "node_env \<Rightarrow> path \<Rightarrow> Dirent list \<Rightarrow> Album list \<times> ProcessingError list \<Rightarrow>
   Album list \<times> ProcessingError list" where
  "albumLoop env artistPath [] acc = acc"
| "albumLoop env artistPath (albumDir # rest) acc =
     (if isDirectory albumDir then
        (let result = processAlbum env (join env artistPath (name albumDir)) (name albumDir)
         in albumLoop env artistPath rest
              (case album result of
                 Some a \<Rightarrow> fst acc @ [a]
               | None \<Rightarrow> fst acc,
               snd acc @ errors result))
      else albumLoop env artistPath rest acc)"

text \<open>
  The outer loop \<^verbatim>\<open>for (const artistDir of dirsToProcess)\<close>. Listing an artist directory is
  not inside any \<^verbatim>\<open>try\<close>: when it rejects, scanDirectory rejects.
\<close>

fun artistLoop ::
  "node_env \<Rightarrow> path \<Rightarrow> Dirent list \<Rightarrow> scan_result \<Rightarrow> thrown + scan_result" where
  "artistLoop env directory [] acc = Inr acc"
| "artistLoop env directory (artistDir # rest) acc =
     (if isDirectory artistDir then
        (let artistPath = join env directory (name artistDir) in
         case readdir env artistPath of
           Inl err \<Rightarrow> Inl err
         | Inr albumDirs \<Rightarrow>
             (let r = albumLoop env artistPath albumDirs ([], scan_errors acc) in
              artistLoop env directory rest
                \<lparr>artists =
                   (if length (fst r) > 0
                    then artists acc @ [\<lparr>artistName = name artistDir, albums = fst r\<rparr>]
                    else artists acc),
                 scan_errors = snd r\<rparr>))
      else artistLoop env directory rest acc)"

text \<open>
  \<^verbatim>\<open>limit > 0 ? artistDirs.slice(0, limit) : artistDirs\<close>, for a limit that is a whole number.
\<close>

definition dirsToProcess :: "int \<Rightarrow> Dirent list \<Rightarrow> Dirent list" where
  "dirsToProcess limit artistDirs =
     (if limit > 0 then slice artistDirs 0 (nat limit) else artistDirs)"

definition scanDirectory :: "node_env \<Rightarrow> path \<Rightarrow> int \<Rightarrow> thrown + scan_result" where
  "scanDirectory env directory limit =
     (case readdir env directory of
        Inl err \<Rightarrow> Inl err
      | Inr artistDirs \<Rightarrow>
          artistLoop env directory (dirsToProcess limit artistDirs)
            \<lparr>artists = [], scan_errors = []\<rparr>)"

section \<open>main\<close>

text \<open>
  The parsed command line: \<^verbatim>\<open>argv['music-dir']\<close> (undefined when neither the option nor
  MUSIC_PATH is given), \<^verbatim>\<open>argv.output\<close> and \<^verbatim>\<open>argv.limit\<close>.
\<close>

record argv =
  music_dir :: "string option"
  output_path :: string
  limit :: int

text \<open>
  What main leaves behind: the code of \<^verbatim>\<open>process.exit\<close> and the files written, in order.
  A written document stands for its serialisation: \<open>ArtistsJson\<close> for the compacted
  \<^verbatim>\<open>JSON.stringify(artists, null, 2)\<close>, \<open>ErrorsJson\<close> for \<^verbatim>\<open>JSON.stringify(errors, null, 2)\<close>.
\<close>

datatype document = ArtistsJson "Artist list" | ErrorsJson "ProcessingError list"

record outcome =
  exitCode :: nat
  written :: "(path \<times> document) list"

text \<open>Lines 218 to 236 of main: which file the output path stands for.\<close>

definition outputFile :: "node_env \<Rightarrow> path \<Rightarrow> path" where
  "outputFile env outputPath =
     (case stat env outputPath of
        Inr statsIsDirectory \<Rightarrow>
          (if statsIsDirectory then join env outputPath ''music_metadata.json''
           else outputPath)
      | Inl err \<Rightarrow>
          (if extname env outputPath \<noteq> [] then outputPath
           else join env outputPath ''music_metadata.json''))"

text \<open>
  Lines 247 to 279 of main, after scanDirectory has returned. A write that rejects is caught
  by the \<^verbatim>\<open>catch\<close> of main, which exits with code 1.
\<close>

definition saveResults :: "node_env \<Rightarrow> path \<Rightarrow> scan_result \<Rightarrow> outcome" where
  "saveResults env outFile r =
     (if length (artists r) > 0 \<and> writeFile env outFile \<noteq> None
      then \<lparr>exitCode = 1, written = []\<rparr>
      else
        (let w = (if length (artists r) > 0 then [(outFile, ArtistsJson (artists r))] else [])
         in if length (scan_errors r) > 0 then
              (let errorFile = join env (dirname env outFile) ''music_metadata_errors.json''
               in case writeFile env errorFile of
                    Some err \<Rightarrow> \<lparr>exitCode = 1, written = w\<rparr>
                  | None \<Rightarrow>
                      \<lparr>exitCode = 0, written = w @ [(errorFile, ErrorsJson (scan_errors r))]\<rparr>)
            else \<lparr>exitCode = 0, written = w\<rparr>))"

text \<open>
  main, from the parsed arguments on. \<^verbatim>\<open>!musicDirectory\<close> holds for undefined and for the
  empty string. Every rejection inside the outer \<^verbatim>\<open>try\<close> ends in its \<^verbatim>\<open>catch\<close>:
  \<^verbatim>\<open>process.exit(1)\<close>.
\<close>

definition main :: "node_env \<Rightarrow> argv \<Rightarrow> outcome" where
  "main env args =
     (case music_dir args of
        None \<Rightarrow> \<lparr>exitCode = 1, written = []\<rparr>
      | Some musicDirectory \<Rightarrow>
          if musicDirectory = [] then \<lparr>exitCode = 1, written = []\<rparr>
          else
            (case access env musicDirectory of
               Some err \<Rightarrow> \<lparr>exitCode = 1, written = []\<rparr>
             | None \<Rightarrow>
                 (let outFile = outputFile env (output_path args);
                      outputDir = dirname env outFile
                  in case mkdir env outputDir of
                       Some err \<Rightarrow> \<lparr>exitCode = 1, written = []\<rparr>
                     | None \<Rightarrow>
                         (case scanDirectory env musicDirectory (limit args) of
                            Inl err \<Rightarrow> \<lparr>exitCode = 1, written = []\<rparr>
                          | Inr r \<Rightarrow> saveResults env outFile r))))"

section \<open>A sample library\<close>

text \<open>
  A small music library and the functions of the outside world on it, for evaluating the
  program: \<^verbatim>\<open>/music\<close> holds a stray file and the artists ArtistA (one album of five files,
  one of them corrupt, and a text file), ArtistB (one empty album) and ArtistC (one album of
  one file, and a directory that cannot be listed).
\<close>

definition sample_join :: "path \<Rightarrow> string \<Rightarrow> path" where
  "sample_join a b = a @ ''/'' @ b"

definition sample_basename :: "path \<Rightarrow> string" where
  "sample_basename p = rev (takeWhile (\<lambda>c. c \<noteq> CHR ''/'') (rev p))"

definition sample_extname :: "path \<Rightarrow> string" where
  "sample_extname p =
     (if CHR ''.'' \<in> set (tl (sample_basename p))
      then CHR ''.'' # rev (takeWhile (\<lambda>c. c \<noteq> CHR ''.'') (rev p))
      else [])"

definition sample_dirname :: "path \<Rightarrow> path" where
  "sample_dirname p = rev (tl (dropWhile (\<lambda>c. c \<noteq> CHR ''/'') (rev p)))"

definition sample_readdir :: "path \<Rightarrow> thrown + Dirent list" where
  "sample_readdir p =
     (if p = ''/music'' then
        Inr [\<lparr>name = ''.DS_Store'', kind = RegularFile\<rparr>,
             \<lparr>name = ''ArtistA'', kind = Directory\<rparr>,
             \<lparr>name = ''ArtistB'', kind = Directory\<rparr>,
             \<lparr>name = ''ArtistC'', kind = Directory\<rparr>]
      else if p = ''/music/ArtistA'' then
        Inr [\<lparr>name = ''Album1'', kind = Directory\<rparr>,
             \<lparr>name = ''notes.txt'', kind = RegularFile\<rparr>]
      else if p = ''/music/ArtistA/Album1'' then
        Inr [\<lparr>name = ''a.mp3'', kind = RegularFile\<rparr>,
             \<lparr>name = ''b.flac'', kind = RegularFile\<rparr>,
             \<lparr>name = ''c.MP3'', kind = RegularFile\<rparr>,
             \<lparr>name = ''cover.jpg'', kind = RegularFile\<rparr>,
             \<lparr>name = ''d.ogg'', kind = RegularFile\<rparr>]
      else if p = ''/music/ArtistB'' then
        Inr [\<lparr>name = ''Empty'', kind = Directory\<rparr>]
      else if p = ''/music/ArtistB/Empty'' then
        Inr []
      else if p = ''/music/ArtistC'' then
        Inr [\<lparr>name = ''Album2'', kind = Directory\<rparr>,
             \<lparr>name = ''Locked'', kind = Directory\<rparr>]
      else if p = ''/music/ArtistC/Album2'' then
        Inr [\<lparr>name = ''x.m4a'', kind = RegularFile\<rparr>]
      else if p = ''/music/ArtistC/Locked'' then
        Inl (JsError ''EACCES: permission denied'')
      else Inl (JsError ''ENOENT: no such file or directory''))"

definition sample_parseFile :: "path \<Rightarrow> thrown + common_tags" where
  "sample_parseFile p =
     (if p = ''/music/ArtistA/Album1/a.mp3'' then
        Inr \<lparr>tag_title = Some ''Song1'', tag_genre = Some [''Rock'', ''Jazz'']\<rparr>
      else if p = ''/music/ArtistA/Album1/b.flac'' then
        Inl (JsError ''Invalid FLAC preamble'')
      else if p = ''/music/ArtistA/Album1/c.MP3'' then
        Inr \<lparr>tag_title = None, tag_genre = Some [''Jazz'', ''Blues'']\<rparr>
      else if p = ''/music/ArtistA/Album1/d.ogg'' then
        Inr \<lparr>tag_title = Some [], tag_genre = None\<rparr>
      else if p = ''/music/ArtistC/Album2/x.m4a'' then
        Inr \<lparr>tag_title = Some ''X'', tag_genre = Some [''Pop'']\<rparr>
      else Inl (JsError ''ENOENT: no such file or directory''))"

definition sample_latency :: "path \<Rightarrow> nat" where
  "sample_latency p =
     (if p = ''/music/ArtistA/Album1/a.mp3'' then 3
      else if p = ''/music/ArtistA/Album1/b.flac'' then 1
      else if p = ''/music/ArtistA/Album1/c.MP3'' then 2
      else 0)"

definition sample_stat :: "path \<Rightarrow> thrown + bool" where
  "sample_stat p =
     (if p = ''/out'' then Inr True
      else if p = ''/out/lib.json'' then Inr False
      else Inl (JsError ''ENOENT: no such file or directory''))"

definition sample_env :: node_env where
  "sample_env =
     \<lparr>readdir = sample_readdir, parseFile = sample_parseFile, latency = sample_latency,
      join = sample_join, extname = sample_extname, dirname = sample_dirname,
      access = (\<lambda>p. if p = ''/music'' then None
                     else Some (JsError ''ENOENT: no such file or directory'')),
      stat = sample_stat, mkdir = (\<lambda>p. None), writeFile = (\<lambda>p. None)\<rparr>"

text \<open>The same library when the directory of ArtistB cannot be listed.\<close>

definition locked_env :: node_env where
  "locked_env =
     sample_env\<lparr>readdir :=
       (\<lambda>p. if p = ''/music/ArtistB'' then Inl (JsError ''EACCES: permission denied'')
            else sample_readdir p)\<rparr>"

text \<open>
  The same library when the process runs out of file descriptors at the moment
  scanDirectory lists the directory of ArtistB.
\<close>

definition exhausted_env :: node_env where
  "exhausted_env =
     sample_env\<lparr>readdir :=
       (\<lambda>p. if p = ''/music/ArtistB'' then Inl (JsError ''EMFILE: too many open files'')
            else sample_readdir p)\<rparr>"

section \<open>What one probe yields\<close>

text \<open>
  The three things a probe of one file contributes, read off the callback: the track (none
  when the probe fails), the error (none when it succeeds) and the genres it reports (none
  when it fails or the metadata has no genre list).
\<close>

definition probeTrack :: "node_env \<Rightarrow> path \<Rightarrow> Dirent \<Rightarrow> Track option" where
  "probeTrack env albumPath f =
     (case parseFile env (join env albumPath (name f)) of
        Inr common \<Rightarrow> Some \<lparr>title = orElse (tag_title common) (name f)\<rparr>
      | Inl err \<Rightarrow> None)"

definition probeError :: "node_env \<Rightarrow> path \<Rightarrow> Dirent \<Rightarrow> ProcessingError option" where
  "probeError env albumPath f =
     (case parseFile env (join env albumPath (name f)) of
        Inr common \<Rightarrow> None
      | Inl err \<Rightarrow> Some \<lparr>pe_file = join env albumPath (name f), error = errorMessage err\<rparr>)"

definition probeGenres :: "node_env \<Rightarrow> path \<Rightarrow> Dirent \<Rightarrow> string list" where
  "probeGenres env albumPath f =
     (case parseFile env (join env albumPath (name f)) of
        Inr common \<Rightarrow> (case tag_genre common of None \<Rightarrow> [] | Some gs \<Rightarrow> gs)
      | Inl err \<Rightarrow> [])"

section \<open>Listing order\<close>






text \<open>The invariant of an emitted artist: some album, and no album without a track.\<close>

definition wellFormed :: "Artist \<Rightarrow> bool" where
  "wellFormed ar = (albums ar \<noteq> [] \<and> (\<forall>al \<in> set (albums ar). tracks al \<noteq> []))"

section \<open>Theorems\<close>

subsection \<open>The callback, a batch and the loop over the batches\<close>

lemma fst_batchCallback: "fst (batchCallback env p f st) = probeTrack env p f"
  by (simp add: batchCallback_def probeTrack_def Let_def split: sum.splits)

lemma tracks_batchCallback: "st_tracks (snd (batchCallback env p f st)) = st_tracks st"
  by (simp add: batchCallback_def Let_def split: sum.splits option.splits)

lemma errors_batchCallback:
  "st_errors (snd (batchCallback env p f st)) = st_errors st @ List.map_filter (probeError env p) [f]"
  by (simp add: batchCallback_def probeError_def Let_def split: sum.splits option.splits)

lemma genres_batchCallback:
  "allGenres (snd (batchCallback env p f st)) = foldl set_add (allGenres st) (probeGenres env p f)"
  by (simp add: batchCallback_def probeGenres_def Let_def split: sum.splits option.splits)

lemma map_filter_append: "List.map_filter f (xs @ ys) = List.map_filter f xs @ List.map_filter f ys"
  by (simp add: List.map_filter_def)

lemma settle_state:
  "st_tracks (snd (foldl (settle env p) (rs, st) ps)) = st_tracks st \<and>
   st_errors (snd (foldl (settle env p) (rs, st) ps)) =
     st_errors st @ List.map_filter (probeError env p) (map snd ps) \<and>
   allGenres (snd (foldl (settle env p) (rs, st) ps)) =
     foldl set_add (allGenres st) (concat (map (probeGenres env p \<circ> snd) ps))"
proof (induction ps arbitrary: rs st)
  case Nil
  show ?case by (simp add: List.map_filter_def)
next
  case (Cons q ps)
  have step: "settle env p (rs, st) q =
      (rs[fst q := fst (batchCallback env p (snd q) st)], snd (batchCallback env p (snd q) st))"
    by (simp add: settle_def Let_def)
  show ?case
    unfolding foldl_Cons step
    apply (simp only: Cons.IH)
    by (simp add: tracks_batchCallback errors_batchCallback genres_batchCallback
          split: option.splits)
qed

lemma settle_results:
  assumes "\<forall>q \<in> set ps. fst q < length rs \<and> batch ! fst q = snd q"
  shows "length (fst (foldl (settle env p) (rs, st) ps)) = length rs \<and>
    (\<forall>k < length rs. fst (foldl (settle env p) (rs, st) ps) ! k =
       (if k \<in> fst ` set ps then probeTrack env p (batch ! k) else rs ! k))"
  using assms
proof (induction ps arbitrary: rs st)
  case Nil
  show ?case by simp
next
  case (Cons q ps)
  have step: "settle env p (rs, st) q =
      (rs[fst q := probeTrack env p (snd q)], snd (batchCallback env p (snd q) st))"
    by (simp add: settle_def Let_def fst_batchCallback)
  have pre: "\<forall>q' \<in> set ps. fst q' < length (rs[fst q := probeTrack env p (snd q)]) \<and> batch ! fst q' = snd q'"
    using Cons.prems by simp
  have q: "fst q < length rs" "batch ! fst q = snd q" using Cons.prems by simp_all
  note IH = Cons.IH [OF pre, of "snd (batchCallback env p (snd q) st)"]
  show ?case
    unfolding foldl_Cons step
    using IH q by (auto simp: nth_list_update)
qed


lemma mset_completionOrder:
  "mset (completionOrder env p batch) = mset (enumerate 0 batch)"
  by (simp add: completionOrder_def)

lemma set_completionOrder:
  "set (completionOrder env p batch) = set (enumerate 0 batch)"
  by (simp add: completionOrder_def)

lemma mset_map_filter_cong:
  "mset xs = mset ys \<Longrightarrow> mset (List.map_filter f xs) = mset (List.map_filter f ys)"
  by (simp add: List.map_filter_def)

lemma map_filter_id_map: "List.map_filter id (map g xs) = List.map_filter g xs"
  by (induction xs) (simp_all add: List.map_filter_def)

lemma set_foldl_set_add: "set (foldl set_add s xs) = set s \<union> set xs"
  by (induction xs arbitrary: s) (auto simp: set_add_def)

lemma distinct_foldl_set_add: "distinct s \<Longrightarrow> distinct (foldl set_add s xs)"
  by (induction xs arbitrary: s) (auto simp: set_add_def)

lemma runBatch_results:
  "fst (foldl (settle env p) (replicate (length batch) None, st) (completionOrder env p batch))
   = map (probeTrack env p) batch"
proof (rule nth_equalityI)
  let ?ps = "completionOrder env p batch"
  have pre: "\<forall>q \<in> set ?ps. fst q < length (replicate (length batch) (None :: Track option)) \<and>
               batch ! fst q = snd q"
    by (simp add: set_completionOrder in_set_enumerate_eq)
  note R = settle_results [OF pre, of env p st]
  show "length (fst (foldl (settle env p) (replicate (length batch) None, st) ?ps)) =
        length (map (probeTrack env p) batch)"
    using R by simp
  fix k
  assume "k < length (fst (foldl (settle env p) (replicate (length batch) None, st) ?ps))"
  then have k: "k < length batch" using R by simp
  have "(k, batch ! k) \<in> set (enumerate 0 batch)"
    using k by (simp add: in_set_enumerate_eq)
  then have "k \<in> fst ` set ?ps"
    unfolding set_completionOrder by force
  then show "fst (foldl (settle env p) (replicate (length batch) None, st) ?ps) ! k =
             map (probeTrack env p) batch ! k"
    using R k by simp
qed

lemma runBatch_tracks:
  "st_tracks (runBatch env p batch st) = st_tracks st @ List.map_filter (probeTrack env p) batch"
  by (simp add: runBatch_def Let_def runBatch_results settle_state map_filter_id_map)

lemma runBatch_errors:
  "mset (st_errors (runBatch env p batch st)) =
   mset (st_errors st) + mset (List.map_filter (probeError env p) batch)"
proof -
  have "mset (map snd (completionOrder env p batch)) = mset batch"
    using mset_completionOrder [of env p batch]
    by (metis map_snd_enumerate mset_map)
  then have "mset (List.map_filter (probeError env p) (map snd (completionOrder env p batch))) =
             mset (List.map_filter (probeError env p) batch)"
    by (rule mset_map_filter_cong)
  then show ?thesis
    by (simp add: runBatch_def Let_def settle_state)
qed

lemma runBatch_genres:
  "set (allGenres (runBatch env p batch st)) =
   set (allGenres st) \<union> (\<Union>f \<in> set batch. set (probeGenres env p f))"
proof -
  let ?ps = "completionOrder env p batch"
  have img: "set batch = snd ` set ?ps"
    unfolding set_completionOrder by (metis map_snd_enumerate set_map)
  have "set (concat (map (probeGenres env p \<circ> snd) ?ps)) =
        (\<Union>q \<in> set ?ps. set (probeGenres env p (snd q)))"
    by simp
  also have "\<dots> = (\<Union>f \<in> set batch. set (probeGenres env p f))"
    unfolding img by (simp only: image_image)
  finally have G: "set (concat (map (probeGenres env p \<circ> snd) ?ps)) =
        (\<Union>f \<in> set batch. set (probeGenres env p f))" .
  have "allGenres (runBatch env p batch st) =
        foldl set_add (allGenres st) (concat (map (probeGenres env p \<circ> snd) ?ps))"
    by (simp add: runBatch_def Let_def settle_state)
  then show ?thesis
    by (simp only: set_foldl_set_add G)
qed

lemma runBatch_distinct:
  "distinct (allGenres st) \<Longrightarrow> distinct (allGenres (runBatch env p batch st))"
  by (simp add: runBatch_def Let_def settle_state distinct_foldl_set_add)

lemma slice_batch:
  "i < length xs \<Longrightarrow>
   slice xs i (min (i + batchSize) (length xs)) = take batchSize (drop i xs)"
  by (simp add: slice_def min_def)

lemma drop_batch: "drop i xs = take batchSize (drop i xs) @ drop (i + batchSize) xs"
  by (metis append_take_drop_id drop_drop add.commute)

lemma batchLoop_tracks:
  "st_tracks (batchLoop env p fs i st) =
   st_tracks st @ List.map_filter (probeTrack env p) (drop i fs)"
proof (induction env p fs i st rule: batchLoop.induct)
  case (1 env p fs i st)
  show ?case
  proof (cases "i < length fs")
    case True
    have "List.map_filter (probeTrack env p) (drop i fs) =
          List.map_filter (probeTrack env p) (take batchSize (drop i fs)) @
          List.map_filter (probeTrack env p) (drop (i + batchSize) fs)"
      by (metis drop_batch map_filter_append)
    then show ?thesis
      using True "1.IH" [OF True]
      by (simp add: batchLoop.simps [of env p fs i st] runBatch_tracks slice_batch)
  next
    case False
    then show ?thesis
      by (simp add: batchLoop.simps [of env p fs i st] List.map_filter_def)
  qed
qed

lemma batchLoop_errors:
  "mset (st_errors (batchLoop env p fs i st)) =
   mset (st_errors st) + mset (List.map_filter (probeError env p) (drop i fs))"
proof (induction env p fs i st rule: batchLoop.induct)
  case (1 env p fs i st)
  show ?case
  proof (cases "i < length fs")
    case True
    have "List.map_filter (probeError env p) (drop i fs) =
          List.map_filter (probeError env p) (take batchSize (drop i fs)) @
          List.map_filter (probeError env p) (drop (i + batchSize) fs)"
      by (metis drop_batch map_filter_append)
    then show ?thesis
      using True "1.IH" [OF True]
      by (simp add: batchLoop.simps [of env p fs i st] runBatch_errors slice_batch)
  next
    case False
    then show ?thesis
      by (simp add: batchLoop.simps [of env p fs i st] List.map_filter_def)
  qed
qed

lemma batchLoop_genres:
  "set (allGenres (batchLoop env p fs i st)) =
   set (allGenres st) \<union> (\<Union>f \<in> set (drop i fs). set (probeGenres env p f))"
proof (induction env p fs i st rule: batchLoop.induct)
  case (1 env p fs i st)
  show ?case
  proof (cases "i < length fs")
    case True
    have "set (drop i fs) = set (take batchSize (drop i fs)) \<union> set (drop (i + batchSize) fs)"
      by (metis drop_batch set_append)
    then show ?thesis
      using True "1.IH" [OF True]
      by (simp add: batchLoop.simps [of env p fs i st] runBatch_genres slice_batch Un_assoc)
  next
    case False
    then show ?thesis
      by (simp add: batchLoop.simps [of env p fs i st])
  qed
qed

lemma batchLoop_distinct:
  "distinct (allGenres st) \<Longrightarrow> distinct (allGenres (batchLoop env p fs i st))"
proof (induction env p fs i st rule: batchLoop.induct)
  case (1 env p fs i st)
  show ?case
  proof (cases "i < length fs")
    case True
    then show ?thesis
      using "1.IH" [OF True] "1.prems"
      by (simp add: batchLoop.simps [of env p fs i st] runBatch_distinct)
  next
    case False
    then show ?thesis
      using "1.prems" by (simp add: batchLoop.simps [of env p fs i st])
  qed
qed

subsection \<open>processAlbum\<close>

text \<open>
  C7. When listing the album directory fails, processAlbum returns no album and exactly one
  ProcessingError, whose file is the album path and whose error is the message of the
  failure. processAlbum always returns: its result type has no exception.
\<close>

theorem processAlbum_listing_failure:
  "readdir env albumPath = Inl err \<Longrightarrow>
   processAlbum env albumPath albumName =
     \<lparr>album = None, errors = [\<lparr>pe_file = albumPath, error = errorMessage err\<rparr>]\<rparr>"
  by (simp add: processAlbum_def)

theorem processAlbum_listing_failure_witness:
  "readdir sample_env ''/music/ArtistC/Locked'' = Inl (JsError ''EACCES: permission denied'') \<and>
   processAlbum sample_env ''/music/ArtistC/Locked'' ''Locked'' =
     \<lparr>album = None,
      errors = [\<lparr>pe_file = ''/music/ArtistC/Locked'', error = ''EACCES: permission denied''\<rparr>]\<rparr>"
proof -
  have h: "readdir sample_env ''/music/ArtistC/Locked'' = Inl (JsError ''EACCES: permission denied'')"
    by (simp add: sample_env_def sample_readdir_def)
  show ?thesis
    using h processAlbum_listing_failure [OF h, of "''Locked''"] by simp
qed

lemma processAlbum_Some:
  assumes "album (processAlbum env p n) = Some a"
  shows "\<exists>trackFiles. readdir env p = Inr trackFiles \<and> albumTitle a = n \<and>
           tracks a = List.map_filter (probeTrack env p) (filter (isMusicFile env) trackFiles) \<and>
           tracks a \<noteq> [] \<and> distinct (genres a) \<and>
           set (genres a) =
             set (concat (map (probeGenres env p) (filter (isMusicFile env) trackFiles)))"
proof (cases "readdir env p")
  case (Inl err)
  with assms show ?thesis by (simp add: processAlbum_def)
next
  case (Inr trackFiles)
  let ?fs = "filter (isMusicFile env) trackFiles"
  let ?st = "batchLoop env p ?fs 0 \<lparr>st_tracks = [], allGenres = [], st_errors = []\<rparr>"
  from assms Inr have a: "a = \<lparr>albumTitle = n, genres = allGenres ?st, tracks = st_tracks ?st\<rparr>"
    and ne: "st_tracks ?st \<noteq> []"
    by (auto simp: processAlbum_def Let_def split: if_splits)
  have t: "st_tracks ?st = List.map_filter (probeTrack env p) ?fs"
    by (simp add: batchLoop_tracks)
  have d: "distinct (allGenres ?st)"
    by (rule batchLoop_distinct) simp
  have g: "set (allGenres ?st) = set (concat (map (probeGenres env p) ?fs))"
    by (simp add: batchLoop_genres)
  show ?thesis
    using Inr a ne t d g by simp
qed

lemma processAlbum_None:
  assumes "readdir env p = Inr trackFiles"
  shows "album (processAlbum env p n) = None \<longleftrightarrow>
         List.map_filter (probeTrack env p) (filter (isMusicFile env) trackFiles) = []"
proof -
  let ?fs = "filter (isMusicFile env) trackFiles"
  have "?fs = [] \<Longrightarrow> List.map_filter (probeTrack env p) ?fs = []"
    by (simp add: List.map_filter_def)
  then show ?thesis
    using assms by (auto simp: processAlbum_def Let_def batchLoop_tracks)
qed

lemma processAlbum_errors:
  assumes "readdir env p = Inr trackFiles"
  shows "mset (errors (processAlbum env p n)) =
         mset (List.map_filter (probeError env p) (filter (isMusicFile env) trackFiles))"
proof (cases "filter (isMusicFile env) trackFiles = []")
  case True
  then have "processAlbum env p n = \<lparr>album = None, errors = []\<rparr>"
    using assms by (simp add: processAlbum_def)
  then show ?thesis
    using True by (simp add: List.map_filter_def)
next
  case False
  then show ?thesis
    using assms by (simp add: processAlbum_def Let_def batchLoop_errors)
qed

lemma probeError_failed:
  "List.map_filter (probeError env p) fs =
   map (\<lambda>f. \<lparr>pe_file = join env p (name f),
              error = errorMessage (projl (parseFile env (join env p (name f))))\<rparr>)
     (filter (\<lambda>f. isl (parseFile env (join env p (name f)))) fs)"
  by (induction fs) (auto simp: probeError_def split: sum.splits)

lemma probeTrack_succeeded:
  "length (List.map_filter (probeTrack env p) fs) =
   length fs - length (filter (\<lambda>f. isl (parseFile env (join env p (name f)))) fs)"
proof -
  have "length (List.map_filter (probeTrack env p) fs) +
        length (filter (\<lambda>f. isl (parseFile env (join env p (name f)))) fs) = length fs"
    by (induction fs) (auto simp: probeTrack_def split: sum.splits)
  then show ?thesis by simp
qed

text \<open>
  C3. An album directory that can be listed holds N supported files, K of which fail
  probing. processAlbum returns an album of exactly N - K tracks when N - K > 0 and no album
  otherwise, and exactly K errors: one for each failed file, with the path of the file and
  the message of its failure (in some order). So every file that does not fail yields its
  track, whichever files fail in its batch or in earlier batches.
\<close>

theorem processAlbum_completeness:
  assumes "readdir env albumPath = Inr trackFiles"
  shows "let musicFiles = filter (isMusicFile env) trackFiles;
             failed = filter (\<lambda>f. isl (parseFile env (join env albumPath (name f)))) musicFiles;
             r = processAlbum env albumPath albumName
         in (if length musicFiles - length failed > 0
             then \<exists>a. album r = Some a \<and> length (tracks a) = length musicFiles - length failed
             else album r = None) \<and>
            length (errors r) = length failed \<and>
            mset (errors r) =
              mset (map (\<lambda>f. \<lparr>pe_file = join env albumPath (name f),
                             error = errorMessage
                               (projl (parseFile env (join env albumPath (name f))))\<rparr>) failed)"
proof -
  let ?fs = "filter (isMusicFile env) trackFiles"
  let ?failed = "filter (\<lambda>f. isl (parseFile env (join env albumPath (name f)))) ?fs"
  let ?r = "processAlbum env albumPath albumName"
  have n: "length (List.map_filter (probeTrack env albumPath) ?fs) = length ?fs - length ?failed"
    by (rule probeTrack_succeeded)
  have e: "mset (errors ?r) =
      mset (map (\<lambda>f. \<lparr>pe_file = join env albumPath (name f),
                       error = errorMessage (projl (parseFile env (join env albumPath (name f))))\<rparr>)
             ?failed)"
    using processAlbum_errors [OF assms] by (simp only: probeError_failed)
  have l: "length (errors ?r) = length ?failed"
    using mset_eq_length [OF e] by simp
  have a: "if length ?fs - length ?failed > 0
           then \<exists>a. album ?r = Some a \<and> length (tracks a) = length ?fs - length ?failed
           else album ?r = None"
  proof (cases "length ?fs - length ?failed > 0")
    case True
    then have "album ?r \<noteq> None"
      using processAlbum_None [OF assms, of albumName] n by auto
    then obtain a where a: "album ?r = Some a" by auto
    from processAlbum_Some [OF a] assms n
    have "length (tracks a) = length ?fs - length ?failed" by auto
    with a True show ?thesis by simp
  next
    case False
    then have "List.map_filter (probeTrack env albumPath) ?fs = []"
      using n by simp
    then show ?thesis
      using False processAlbum_None [OF assms, of albumName] by simp
  qed
  show ?thesis
    unfolding Let_def using a l e by blast
qed


theorem processAlbum_completeness_witness:
  "readdir sample_env ''/music/ArtistA/Album1'' =
     Inr [\<lparr>name = ''a.mp3'', kind = RegularFile\<rparr>, \<lparr>name = ''b.flac'', kind = RegularFile\<rparr>,
          \<lparr>name = ''c.MP3'', kind = RegularFile\<rparr>, \<lparr>name = ''cover.jpg'', kind = RegularFile\<rparr>,
          \<lparr>name = ''d.ogg'', kind = RegularFile\<rparr>] \<and>
   (\<exists>a. album (processAlbum sample_env ''/music/ArtistA/Album1'' ''Album1'') = Some a \<and>
        length (tracks a) = 4 - 1) \<and>
   length (errors (processAlbum sample_env ''/music/ArtistA/Album1'' ''Album1'')) = 1 \<and>
   mset (errors (processAlbum sample_env ''/music/ArtistA/Album1'' ''Album1'')) =
     {#\<lparr>pe_file = ''/music/ArtistA/Album1/b.flac'', error = ''Invalid FLAC preamble''\<rparr>#}"
proof -
  let ?ls = "[\<lparr>name = ''a.mp3'', kind = RegularFile\<rparr>, \<lparr>name = ''b.flac'', kind = RegularFile\<rparr>,
          \<lparr>name = ''c.MP3'', kind = RegularFile\<rparr>, \<lparr>name = ''cover.jpg'', kind = RegularFile\<rparr>,
          \<lparr>name = ''d.ogg'', kind = RegularFile\<rparr>]"
  have h: "readdir sample_env ''/music/ArtistA/Album1'' = Inr ?ls"
    by (simp add: sample_env_def sample_readdir_def)
  have m: "filter (isMusicFile sample_env) ?ls =
      [\<lparr>name = ''a.mp3'', kind = RegularFile\<rparr>, \<lparr>name = ''b.flac'', kind = RegularFile\<rparr>,
       \<lparr>name = ''c.MP3'', kind = RegularFile\<rparr>, \<lparr>name = ''d.ogg'', kind = RegularFile\<rparr>]"
    by code_simp
  have f: "filter (\<lambda>f. isl (parseFile sample_env (join sample_env ''/music/ArtistA/Album1'' (name f))))
       [\<lparr>name = ''a.mp3'', kind = RegularFile\<rparr>, \<lparr>name = ''b.flac'', kind = RegularFile\<rparr>,
        \<lparr>name = ''c.MP3'', kind = RegularFile\<rparr>, \<lparr>name = ''d.ogg'', kind = RegularFile\<rparr>] =
      [\<lparr>name = ''b.flac'', kind = RegularFile\<rparr>]"
    by code_simp
  have e: "parseFile sample_env ''/music/ArtistA/Album1/b.flac'' =
           Inl (JsError ''Invalid FLAC preamble'')"
    by code_simp
  have j: "join sample_env ''/music/ArtistA/Album1'' ''b.flac'' = ''/music/ArtistA/Album1/b.flac''"
    by code_simp
  show ?thesis
    using h processAlbum_completeness [OF h, of "''Album1''"]
    unfolding Let_def m f by (simp add: e j numeral_3_eq_3)
qed


text \<open>
  C5. The genres of a returned album have no duplicates, and as a set they are the union of
  the genre lists reported by the successful probes of the supported files of the album.
\<close>

theorem album_genres_union:
  "album (processAlbum env albumPath albumName) = Some a \<Longrightarrow>
   \<exists>trackFiles. readdir env albumPath = Inr trackFiles \<and> distinct (genres a) \<and>
     set (genres a) =
       (\<Union>f \<in> set (filter (isMusicFile env) trackFiles). set (probeGenres env albumPath f))"
proof -
  assume "album (processAlbum env albumPath albumName) = Some a"
  from processAlbum_Some [OF this] obtain trackFiles where
    "readdir env albumPath = Inr trackFiles" "distinct (genres a)"
    "set (genres a) =
       set (concat (map (probeGenres env albumPath) (filter (isMusicFile env) trackFiles)))"
    by blast
  then show ?thesis by auto
qed

theorem album_genres_union_witness:
  "album (processAlbum sample_env ''/music/ArtistA/Album1'' ''Album1'') =
     Some \<lparr>albumTitle = ''Album1'', genres = [''Jazz'', ''Blues'', ''Rock''],
           tracks = [\<lparr>title = ''Song1''\<rparr>, \<lparr>title = ''c.MP3''\<rparr>, \<lparr>title = ''d.ogg''\<rparr>]\<rparr> \<and>
   probeGenres sample_env ''/music/ArtistA/Album1'' \<lparr>name = ''a.mp3'', kind = RegularFile\<rparr> =
     [''Rock'', ''Jazz''] \<and>
   probeGenres sample_env ''/music/ArtistA/Album1'' \<lparr>name = ''c.MP3'', kind = RegularFile\<rparr> =
     [''Jazz'', ''Blues''] \<and>
   (\<exists>trackFiles. readdir sample_env ''/music/ArtistA/Album1'' = Inr trackFiles \<and>
      distinct [''Jazz'', ''Blues'', ''Rock''] \<and>
      set [''Jazz'', ''Blues'', ''Rock''] =
        (\<Union>f \<in> set (filter (isMusicFile sample_env) trackFiles).
           set (probeGenres sample_env ''/music/ArtistA/Album1'' f)))"
proof -
  have h: "album (processAlbum sample_env ''/music/ArtistA/Album1'' ''Album1'') =
     Some \<lparr>albumTitle = ''Album1'', genres = [''Jazz'', ''Blues'', ''Rock''],
           tracks = [\<lparr>title = ''Song1''\<rparr>, \<lparr>title = ''c.MP3''\<rparr>, \<lparr>title = ''d.ogg''\<rparr>]\<rparr>"
    by code_simp
  have g1: "probeGenres sample_env ''/music/ArtistA/Album1'' \<lparr>name = ''a.mp3'', kind = RegularFile\<rparr> =
     [''Rock'', ''Jazz'']"
    by code_simp
  have g2: "probeGenres sample_env ''/music/ArtistA/Album1'' \<lparr>name = ''c.MP3'', kind = RegularFile\<rparr> =
     [''Jazz'', ''Blues'']"
    by code_simp
  show ?thesis
    using h g1 g2 album_genres_union [OF h] by simp
qed

text \<open>
  C8. When the probe of a file succeeds, the title of its track is the title of the
  metadata when there is one and it is not the empty string, and the name of the directory
  entry otherwise.
\<close>

theorem track_title_fallback:
  "parseFile env (join env albumPath (name trackFile)) = Inr common \<Longrightarrow>
   fst (batchCallback env albumPath trackFile st) =
     Some \<lparr>title = (if tag_title common = None \<or> tag_title common = Some []
                     then name trackFile else the (tag_title common))\<rparr>"
  by (auto simp: batchCallback_def Let_def orElse_def split: option.splits)

theorem track_title_fallback_witness:
  "parseFile sample_env (join sample_env ''/music/ArtistA/Album1'' ''c.MP3'') =
     Inr \<lparr>tag_title = None, tag_genre = Some [''Jazz'', ''Blues'']\<rparr> \<and>
   fst (batchCallback sample_env ''/music/ArtistA/Album1'' \<lparr>name = ''c.MP3'', kind = RegularFile\<rparr>
          \<lparr>st_tracks = [], allGenres = [], st_errors = []\<rparr>) = Some \<lparr>title = ''c.MP3''\<rparr> \<and>
   parseFile sample_env (join sample_env ''/music/ArtistA/Album1'' ''a.mp3'') =
     Inr \<lparr>tag_title = Some ''Song1'', tag_genre = Some [''Rock'', ''Jazz'']\<rparr> \<and>
   fst (batchCallback sample_env ''/music/ArtistA/Album1'' \<lparr>name = ''a.mp3'', kind = RegularFile\<rparr>
          \<lparr>st_tracks = [], allGenres = [], st_errors = []\<rparr>) = Some \<lparr>title = ''Song1''\<rparr>"
proof -
  have h1: "parseFile sample_env (join sample_env ''/music/ArtistA/Album1''
              (name \<lparr>name = ''c.MP3'', kind = RegularFile\<rparr>)) =
     Inr \<lparr>tag_title = None, tag_genre = Some [''Jazz'', ''Blues'']\<rparr>"
    by code_simp
  have h2: "parseFile sample_env (join sample_env ''/music/ArtistA/Album1''
              (name \<lparr>name = ''a.mp3'', kind = RegularFile\<rparr>)) =
     Inr \<lparr>tag_title = Some ''Song1'', tag_genre = Some [''Rock'', ''Jazz'']\<rparr>"
    by code_simp
  show ?thesis
    using h1 h2
      track_title_fallback [OF h1, of "\<lparr>st_tracks = [], allGenres = [], st_errors = []\<rparr>"]
      track_title_fallback [OF h2, of "\<lparr>st_tracks = [], allGenres = [], st_errors = []\<rparr>"]
    by simp
qed

text \<open>
  The file d.ogg of the sample library has a title, the empty string: the title of its track
  is the name of the file, not that title.
\<close>

theorem track_title_empty_counterexample:
  "parseFile sample_env (join sample_env ''/music/ArtistA/Album1'' ''d.ogg'') =
     Inr \<lparr>tag_title = Some [], tag_genre = None\<rparr> \<and>
   fst (batchCallback sample_env ''/music/ArtistA/Album1'' \<lparr>name = ''d.ogg'', kind = RegularFile\<rparr>
          \<lparr>st_tracks = [], allGenres = [], st_errors = []\<rparr>) = Some \<lparr>title = ''d.ogg''\<rparr> \<and>
   fst (batchCallback sample_env ''/music/ArtistA/Album1'' \<lparr>name = ''d.ogg'', kind = RegularFile\<rparr>
          \<lparr>st_tracks = [], allGenres = [], st_errors = []\<rparr>) \<noteq> Some \<lparr>title = []\<rparr>"
  by code_simp

subsection \<open>scanDirectory\<close>

lemma processAlbum_tracks_nonempty:
  "album (processAlbum env p n) = Some a \<Longrightarrow> tracks a \<noteq> []"
  by (auto simp: processAlbum_def Let_def split: sum.splits if_splits)

lemma albumLoop_nonempty:
  "\<forall>a \<in> set (fst acc). tracks a \<noteq> [] \<Longrightarrow>
   \<forall>a \<in> set (fst (albumLoop env p ds acc)). tracks a \<noteq> []"
proof (induction ds arbitrary: acc)
  case Nil
  then show ?case by simp
next
  case (Cons d ds)
  show ?case
  proof (cases "isDirectory d")
    case True
    let ?r = "processAlbum env (join env p (name d)) (name d)"
    let ?acc = "(case album ?r of Some a \<Rightarrow> fst acc @ [a] | None \<Rightarrow> fst acc, snd acc @ errors ?r)"
    have "\<forall>a \<in> set (fst ?acc). tracks a \<noteq> []"
      using Cons.prems processAlbum_tracks_nonempty [of env "join env p (name d)" "name d"]
      by (auto split: option.splits)
    from Cons.IH [OF this] True show ?thesis by (simp add: Let_def)
  next
    case False
    with Cons show ?thesis by simp
  qed
qed

lemma artistLoop_nonempty:
  "artistLoop env d ds acc = Inr r \<Longrightarrow> \<forall>ar \<in> set (artists acc). wellFormed ar \<Longrightarrow>
   \<forall>ar \<in> set (artists r). wellFormed ar"
proof (induction ds arbitrary: acc)
  case Nil
  then show ?case by simp
next
  case (Cons a ds)
  show ?case
  proof (cases "isDirectory a")
    case False
    with Cons show ?thesis by simp
  next
    case True
    show ?thesis
    proof (cases "readdir env (join env d (name a))")
      case (Inl err)
      with True Cons.prems show ?thesis by (simp add: Let_def)
    next
      case (Inr albumDirs)
      let ?r = "albumLoop env (join env d (name a)) albumDirs ([], scan_errors acc)"
      let ?acc = "\<lparr>artists =
                   (if length (fst ?r) > 0
                    then artists acc @ [\<lparr>artistName = name a, albums = fst ?r\<rparr>]
                    else artists acc),
                 scan_errors = snd ?r\<rparr>"
      have run: "artistLoop env d ds ?acc = Inr r"
        using Cons.prems(1) True Inr by (simp add: Let_def)
      have "\<forall>al \<in> set (fst ?r). tracks al \<noteq> []"
        by (rule albumLoop_nonempty) simp
      then have "\<forall>ar \<in> set (artists ?acc). wellFormed ar"
        using Cons.prems(2) by (auto simp: wellFormed_def)
      from Cons.IH [OF run this] show ?thesis .
    qed
  qed
qed

text \<open>
  C4. An album that processAlbum returns has at least one track, and in a result of
  scanDirectory every artist has at least one album and every album at least one track.
\<close>

theorem emitted_nonempty:
  "(album (processAlbum env albumPath albumName) = Some a \<longrightarrow> tracks a \<noteq> []) \<and>
   (scanDirectory env directory artistLimit = Inr r \<longrightarrow>
      (\<forall>ar \<in> set (artists r). albums ar \<noteq> [] \<and> (\<forall>al \<in> set (albums ar). tracks al \<noteq> [])))"
proof -
  have "\<forall>ar \<in> set (artists r). wellFormed ar" if "scanDirectory env directory artistLimit = Inr r"
  proof -
    from that obtain artistDirs where
      "artistLoop env directory (dirsToProcess artistLimit artistDirs) \<lparr>artists = [], scan_errors = []\<rparr> = Inr r"
      by (auto simp: scanDirectory_def split: sum.splits)
    then show ?thesis
      by (rule artistLoop_nonempty) simp
  qed
  then show ?thesis
    using processAlbum_tracks_nonempty [of env albumPath albumName a]
    by (auto simp: wellFormed_def)
qed

theorem emitted_nonempty_witness:
  "album (processAlbum sample_env ''/music/ArtistC/Album2'' ''Album2'') =
     Some \<lparr>albumTitle = ''Album2'', genres = [''Pop''], tracks = [\<lparr>title = ''X''\<rparr>]\<rparr> \<and>
   tracks \<lparr>albumTitle = ''Album2'', genres = [''Pop''], tracks = [\<lparr>title = ''X''\<rparr>]\<rparr> \<noteq> [] \<and>
   scanDirectory sample_env ''/music'' 3 =
     Inr \<lparr>artists =
            [\<lparr>artistName = ''ArtistA'',
              albums =
                [\<lparr>albumTitle = ''Album1'', genres = [''Jazz'', ''Blues'', ''Rock''],
                  tracks = [\<lparr>title = ''Song1''\<rparr>, \<lparr>title = ''c.MP3''\<rparr>, \<lparr>title = ''d.ogg''\<rparr>]\<rparr>]\<rparr>],
          scan_errors =
            [\<lparr>pe_file = ''/music/ArtistA/Album1/b.flac'', error = ''Invalid FLAC preamble''\<rparr>]\<rparr> \<and>
   albums \<lparr>artistName = ''ArtistA'',
              albums =
                [\<lparr>albumTitle = ''Album1'', genres = [''Jazz'', ''Blues'', ''Rock''],
                  tracks = [\<lparr>title = ''Song1''\<rparr>, \<lparr>title = ''c.MP3''\<rparr>, \<lparr>title = ''d.ogg''\<rparr>]\<rparr>]\<rparr>
     \<noteq> [] \<and>
   tracks \<lparr>albumTitle = ''Album1'', genres = [''Jazz'', ''Blues'', ''Rock''],
            tracks = [\<lparr>title = ''Song1''\<rparr>, \<lparr>title = ''c.MP3''\<rparr>, \<lparr>title = ''d.ogg''\<rparr>]\<rparr> \<noteq> []"
proof -
  have h1: "album (processAlbum sample_env ''/music/ArtistC/Album2'' ''Album2'') =
     Some \<lparr>albumTitle = ''Album2'', genres = [''Pop''], tracks = [\<lparr>title = ''X''\<rparr>]\<rparr>"
    by code_simp
  have h2: "scanDirectory sample_env ''/music'' 3 =
     Inr \<lparr>artists =
            [\<lparr>artistName = ''ArtistA'',
              albums =
                [\<lparr>albumTitle = ''Album1'', genres = [''Jazz'', ''Blues'', ''Rock''],
                  tracks = [\<lparr>title = ''Song1''\<rparr>, \<lparr>title = ''c.MP3''\<rparr>, \<lparr>title = ''d.ogg''\<rparr>]\<rparr>]\<rparr>],
          scan_errors =
            [\<lparr>pe_file = ''/music/ArtistA/Album1/b.flac'', error = ''Invalid FLAC preamble''\<rparr>]\<rparr>"
    by code_simp
  show ?thesis
    using h1 h2 emitted_nonempty [of sample_env "''/music/ArtistC/Album2''" "''Album2''" _
      "''/music''" 3, OF]
    by simp
qed

text \<open>
  C1. A limit M below the number of artist directories is meant to make scanDirectory
  consider the first M artist directories, entries that are not directories not being
  counted. The source takes the first M entries of the raw listing and tests isDirectory
  only inside the loop. The root of the sample library lists a file before its three artist
  directories: with a limit of 1 the entries to process are that file alone, no artist
  directory is processed and the result is empty, where the first artist directory, the only
  one the limit should leave, yields ArtistA.
\<close>

theorem scanDirectory_limit_counts_files:
  "readdir sample_env ''/music'' =
     Inr [\<lparr>name = ''.DS_Store'', kind = RegularFile\<rparr>, \<lparr>name = ''ArtistA'', kind = Directory\<rparr>,
          \<lparr>name = ''ArtistB'', kind = Directory\<rparr>, \<lparr>name = ''ArtistC'', kind = Directory\<rparr>] \<and>
   (0::int) < 1 \<and>
   (1::int) < int (length (filter isDirectory
     [\<lparr>name = ''.DS_Store'', kind = RegularFile\<rparr>, \<lparr>name = ''ArtistA'', kind = Directory\<rparr>,
      \<lparr>name = ''ArtistB'', kind = Directory\<rparr>, \<lparr>name = ''ArtistC'', kind = Directory\<rparr>])) \<and>
   take 1 (filter isDirectory
     [\<lparr>name = ''.DS_Store'', kind = RegularFile\<rparr>, \<lparr>name = ''ArtistA'', kind = Directory\<rparr>,
      \<lparr>name = ''ArtistB'', kind = Directory\<rparr>, \<lparr>name = ''ArtistC'', kind = Directory\<rparr>]) =
     [\<lparr>name = ''ArtistA'', kind = Directory\<rparr>] \<and>
   filter isDirectory (dirsToProcess 1
     [\<lparr>name = ''.DS_Store'', kind = RegularFile\<rparr>, \<lparr>name = ''ArtistA'', kind = Directory\<rparr>,
      \<lparr>name = ''ArtistB'', kind = Directory\<rparr>, \<lparr>name = ''ArtistC'', kind = Directory\<rparr>]) = [] \<and>
   scanDirectory sample_env ''/music'' 1 = Inr \<lparr>artists = [], scan_errors = []\<rparr> \<and>
   artistLoop sample_env ''/music'' [\<lparr>name = ''ArtistA'', kind = Directory\<rparr>]
       \<lparr>artists = [], scan_errors = []\<rparr> =
     Inr \<lparr>artists =
        [\<lparr>artistName = ''ArtistA'',
          albums =
            [\<lparr>albumTitle = ''Album1'', genres = [''Jazz'', ''Blues'', ''Rock''],
              tracks = [\<lparr>title = ''Song1''\<rparr>, \<lparr>title = ''c.MP3''\<rparr>, \<lparr>title = ''d.ogg''\<rparr>]\<rparr>]\<rparr>],
      scan_errors =
        [\<lparr>pe_file = ''/music/ArtistA/Album1/b.flac'', error = ''Invalid FLAC preamble''\<rparr>]\<rparr>"
  by code_simp

text \<open>
  C2. In the sample library with the directory of ArtistB unreadable, scanDirectory rejects
  with the failure of that listing: it returns no result, so neither ArtistA, scanned before,
  nor ArtistC, a sibling, is in any result, and no ProcessingError is recorded.
\<close>

theorem scanDirectory_artist_listing_rejects:
  "readdir locked_env ''/music/ArtistB'' = Inl (JsError ''EACCES: permission denied'') \<and>
   scanDirectory locked_env ''/music'' 0 = Inl (JsError ''EACCES: permission denied'') \<and>
   processAlbum locked_env ''/music/ArtistC/Locked'' ''Locked'' =
     \<lparr>album = None,
      errors = [\<lparr>pe_file = ''/music/ArtistC/Locked'', error = ''EACCES: permission denied''\<rparr>]\<rparr>"
  by code_simp

subsection \<open>main\<close>

text \<open>
  C9. The output file is the output path joined with music_metadata.json when the path is
  an existing directory (stat resolves, to a directory) or does not exist (stat rejects) and
  has no extension; it is the output path itself when the path exists and is not a
  directory, or does not exist and has an extension.
\<close>

theorem outputFile_cases:
  "(stat env outputPath = Inr True \<longrightarrow>
      outputFile env outputPath = join env outputPath ''music_metadata.json'') \<and>
   (stat env outputPath = Inr False \<longrightarrow> outputFile env outputPath = outputPath) \<and>
   (isl (stat env outputPath) \<and> extname env outputPath = [] \<longrightarrow>
      outputFile env outputPath = join env outputPath ''music_metadata.json'') \<and>
   (isl (stat env outputPath) \<and> extname env outputPath \<noteq> [] \<longrightarrow>
      outputFile env outputPath = outputPath)"
  by (auto simp: outputFile_def split: sum.splits)

theorem outputFile_cases_witness:
  "stat sample_env ''/out'' = Inr True \<and>
   outputFile sample_env ''/out'' = ''/out/music_metadata.json'' \<and>
   stat sample_env ''/out/lib.json'' = Inr False \<and>
   outputFile sample_env ''/out/lib.json'' = ''/out/lib.json'' \<and>
   isl (stat sample_env ''/new/dir'') \<and> extname sample_env ''/new/dir'' = [] \<and>
   outputFile sample_env ''/new/dir'' = ''/new/dir/music_metadata.json'' \<and>
   isl (stat sample_env ''/new/x.json'') \<and> extname sample_env ''/new/x.json'' = ''.json'' \<and>
   outputFile sample_env ''/new/x.json'' = ''/new/x.json''"
proof -
  have s: "stat sample_env ''/out'' = Inr True" "stat sample_env ''/out/lib.json'' = Inr False"
    "isl (stat sample_env ''/new/dir'')" "isl (stat sample_env ''/new/x.json'')"
    by (simp_all add: sample_env_def sample_stat_def)
  have e: "extname sample_env ''/new/dir'' = []" "extname sample_env ''/new/x.json'' = ''.json''"
    by code_simp+
  have j: "join sample_env ''/out'' ''music_metadata.json'' = ''/out/music_metadata.json''"
    "join sample_env ''/new/dir'' ''music_metadata.json'' = ''/new/dir/music_metadata.json''"
    by (simp_all add: sample_env_def sample_join_def)
  show ?thesis
    using s e j
      outputFile_cases [of sample_env "''/out''"]
      outputFile_cases [of sample_env "''/out/lib.json''"]
      outputFile_cases [of sample_env "''/new/dir''"]
      outputFile_cases [of sample_env "''/new/x.json''"]
    by simp
qed

text \<open>
  C6. Once the music directory is accessible and the output directory is made: when
  scanDirectory rejects, main writes no file and exits with code 1; when it returns and no
  write fails, main writes the artists (if any) to the output file, the errors (if any) to
  music_metadata_errors.json beside it, and exits with code 0.
\<close>

theorem main_after_scan:
  assumes "music_dir args = Some musicDirectory" and "musicDirectory \<noteq> []"
    and "access env musicDirectory = None"
    and "mkdir env (dirname env (outputFile env (output_path args))) = None"
  shows "(isl (scanDirectory env musicDirectory (limit args)) \<longrightarrow>
            main env args = \<lparr>exitCode = 1, written = []\<rparr>) \<and>
         (\<forall>r. scanDirectory env musicDirectory (limit args) = Inr r \<and>
               (\<forall>p. writeFile env p = None) \<longrightarrow>
            main env args =
              \<lparr>exitCode = 0,
               written =
                 (if artists r \<noteq> []
                  then [(outputFile env (output_path args), ArtistsJson (artists r))] else []) @
                 (if scan_errors r \<noteq> []
                  then [(join env (dirname env (outputFile env (output_path args)))
                           ''music_metadata_errors.json'', ErrorsJson (scan_errors r))]
                  else [])\<rparr>)"
  using assms
  by (auto simp: main_def saveResults_def Let_def split: sum.splits)

theorem main_after_scan_witness:
  "isl (scanDirectory locked_env ''/music'' 0) \<and>
   main locked_env \<lparr>music_dir = Some ''/music'', output_path = ''/out'', limit = 0\<rparr> =
     \<lparr>exitCode = 1, written = []\<rparr> \<and>
   scanDirectory sample_env ''/music'' 2 =
     Inr \<lparr>artists =
        [\<lparr>artistName = ''ArtistA'',
          albums =
            [\<lparr>albumTitle = ''Album1'', genres = [''Jazz'', ''Blues'', ''Rock''],
              tracks = [\<lparr>title = ''Song1''\<rparr>, \<lparr>title = ''c.MP3''\<rparr>, \<lparr>title = ''d.ogg''\<rparr>]\<rparr>]\<rparr>],
      scan_errors =
        [\<lparr>pe_file = ''/music/ArtistA/Album1/b.flac'', error = ''Invalid FLAC preamble''\<rparr>]\<rparr> \<and>
   main sample_env \<lparr>music_dir = Some ''/music'', output_path = ''/out'', limit = 2\<rparr> =
     \<lparr>exitCode = 0,
      written =
        [(''/out/music_metadata.json'',
          ArtistsJson
            [\<lparr>artistName = ''ArtistA'',
              albums =
                [\<lparr>albumTitle = ''Album1'', genres = [''Jazz'', ''Blues'', ''Rock''],
                  tracks = [\<lparr>title = ''Song1''\<rparr>, \<lparr>title = ''c.MP3''\<rparr>, \<lparr>title = ''d.ogg''\<rparr>]\<rparr>]\<rparr>]),
         (''/out/music_metadata_errors.json'',
          ErrorsJson
            [\<lparr>pe_file = ''/music/ArtistA/Album1/b.flac'', error = ''Invalid FLAC preamble''\<rparr>])]\<rparr>"
proof -
  let ?args = "\<lparr>music_dir = Some ''/music'', output_path = ''/out'', limit = 0\<rparr>"
  let ?args2 = "\<lparr>music_dir = Some ''/music'', output_path = ''/out'', limit = 2\<rparr>"
  have a1: "music_dir ?args = Some ''/music''" and a1': "music_dir ?args2 = Some ''/music''"
    and a2: "''/music'' \<noteq> []" by simp_all
  have a3: "access locked_env ''/music'' = None" and a3': "access sample_env ''/music'' = None"
    by (simp_all add: locked_env_def sample_env_def)
  have a4: "mkdir locked_env (dirname locked_env (outputFile locked_env (output_path ?args))) = None"
    and a4': "mkdir sample_env (dirname sample_env (outputFile sample_env (output_path ?args2))) = None"
    by (simp_all add: locked_env_def sample_env_def)
  have s1: "isl (scanDirectory locked_env ''/music'' 0)"
    by code_simp
  have s2: "scanDirectory sample_env ''/music'' 2 =
     Inr \<lparr>artists =
        [\<lparr>artistName = ''ArtistA'',
          albums =
            [\<lparr>albumTitle = ''Album1'', genres = [''Jazz'', ''Blues'', ''Rock''],
              tracks = [\<lparr>title = ''Song1''\<rparr>, \<lparr>title = ''c.MP3''\<rparr>, \<lparr>title = ''d.ogg''\<rparr>]\<rparr>]\<rparr>],
      scan_errors =
        [\<lparr>pe_file = ''/music/ArtistA/Album1/b.flac'', error = ''Invalid FLAC preamble''\<rparr>]\<rparr>"
    by code_simp
  have w: "\<forall>p. writeFile sample_env p = None"
    by (simp add: sample_env_def)
  have o: "outputFile sample_env ''/out'' = ''/out/music_metadata.json''"
    by code_simp
  have d: "dirname sample_env ''/out/music_metadata.json'' = ''/out''"
    by code_simp
  have j: "join sample_env ''/out'' ''music_metadata_errors.json'' = ''/out/music_metadata_errors.json''"
    by code_simp
  show ?thesis
    using s1 s2 w main_after_scan [OF a1 a2 a3 a4] main_after_scan [OF a1' a2 a3' a4']
    by (simp add: o d j)
qed

text \<open>
  The music directory is accessible and the output directory is made. ArtistA and one error
  have been accumulated when the listing of ArtistB rejects; scanDirectory rejects, and main
  writes nothing and exits with code 1.
\<close>

theorem main_scan_interrupted_counterexample:
  "access exhausted_env ''/music'' = None \<and>
   mkdir exhausted_env (dirname exhausted_env (outputFile exhausted_env ''/out'')) = None \<and>
   artistLoop exhausted_env ''/music''
       [\<lparr>name = ''.DS_Store'', kind = RegularFile\<rparr>, \<lparr>name = ''ArtistA'', kind = Directory\<rparr>]
       \<lparr>artists = [], scan_errors = []\<rparr> =
     Inr \<lparr>artists =
        [\<lparr>artistName = ''ArtistA'',
          albums =
            [\<lparr>albumTitle = ''Album1'', genres = [''Jazz'', ''Blues'', ''Rock''],
              tracks = [\<lparr>title = ''Song1''\<rparr>, \<lparr>title = ''c.MP3''\<rparr>, \<lparr>title = ''d.ogg''\<rparr>]\<rparr>]\<rparr>],
      scan_errors =
        [\<lparr>pe_file = ''/music/ArtistA/Album1/b.flac'', error = ''Invalid FLAC preamble''\<rparr>]\<rparr> \<and>
   scanDirectory exhausted_env ''/music'' 0 = Inl (JsError ''EMFILE: too many open files'') \<and>
   main exhausted_env \<lparr>music_dir = Some ''/music'', output_path = ''/out'', limit = 0\<rparr> =
     \<lparr>exitCode = 1, written = []\<rparr>"
  by code_simp

subsection \<open>The order of the output\<close>











end
